theory Spec2Isabelle
  imports Main "HOL-Library.Word"
begin

section \<open>Data of the JIT manager\<close>

text \<open>
  The manager of \<^verbatim>\<open>Sources/JIT/JIT.cpp\<close> (class \<^verbatim>\<open>gaia::JIT\<close>) keeps a vector of module
  handles and talks to three collaborators that live in LLVM and are not part of the
  repository: the name mangler, the compile layer and the symbol table of the host process.
\<close>

text \<open>\<^verbatim>\<open>llvm::orc::TargetAddress\<close> is \<^verbatim>\<open>uint64_t\<close>.\<close>

type_synonym TargetAddress = "64 word"

text \<open>\<^verbatim>\<open>llvm::JITSymbolFlags\<close> is a bit-flag enumeration; a value of it is the set of its bits.
  \<^verbatim>\<open>JITSymbolFlags::None\<close> is the empty set, \<^verbatim>\<open>JITSymbolFlags::Exported\<close> the set with that one bit.\<close>

datatype JITSymbolFlag = Weak | Exported

type_synonym JITSymbolFlags = "JITSymbolFlag set"

text \<open>A \<^verbatim>\<open>llvm::orc::JITSymbol\<close> that converts to \<^verbatim>\<open>true\<close>. The null symbol (\<^verbatim>\<open>JITSymbol(nullptr)\<close>,
  which converts to \<^verbatim>\<open>false\<close>) is \<open>None\<close> of \<open>JITSymbol option\<close>.\<close>

record JITSymbol =
  getAddress :: TargetAddress
  getFlags :: JITSymbolFlags

text \<open>\<^verbatim>\<open>llvm::RuntimeDyld::SymbolInfo\<close>, what a resolver answers; \<^verbatim>\<open>SymbolInfo(nullptr)\<close> has
  address 0 and no flag.\<close>

record SymbolInfo =
  infoAddress :: TargetAddress
  infoFlags :: JITSymbolFlags

text \<open>\<^verbatim>\<open>ModuleHandle\<close> is \<^verbatim>\<open>CompileLayer::ModuleSetHandleT\<close>: an opaque value compared with \<open>=\<close>.\<close>

type_synonym ModuleHandle = nat

text \<open>
  Modelled from the spec: the compile layer (LLVM's \<^verbatim>\<open>IRCompileLayer\<close> over
  \<^verbatim>\<open>ObjectLinkingLayer\<close>) is not under the repository; section 4.3 of the specification gives
  its contract: (a) given a module set, a memory manager and a resolver it produces a handle
  to a linked artifact, (b) given a handle and a name it reports whether that artifact
  defines the name and if so its address and flags, (c) given a handle it releases the
  artifact.

  A module is represented by what its linked artifact answers to a symbol query: the name
  and the boolean that \<^verbatim>\<open>findSymbolIn\<close> passes on, to a symbol or null. The meaning of the
  boolean is LLVM's and is left open. The layer is a store from live handles to module sets.
\<close>

type_synonym Module = "string \<Rightarrow> bool \<Rightarrow> JITSymbol option"

type_synonym CompileLayer = "ModuleHandle \<rightharpoonup> Module list"

fun findSymbolInSet :: "Module list \<Rightarrow> string \<Rightarrow> bool \<Rightarrow> JITSymbol option" where
  "findSymbolInSet [] name flag = None"
| "findSymbolInSet (m # ms) name flag =
     (case m name flag of Some symbol \<Rightarrow> Some symbol | None \<Rightarrow> findSymbolInSet ms name flag)"

text \<open>Modelled from the spec: \<^verbatim>\<open>CompileLayer::findSymbolIn\<close> is LLVM's; this is (b) of the
  contract. A handle without a live module set is outside the contract of the layer; the
  model answers null for it. In the states the manager reaches every handle of the registry
  is live (lemma \<open>reachable_registry\<close> below).\<close>

definition findSymbolIn :: "CompileLayer \<Rightarrow> ModuleHandle \<Rightarrow> string \<Rightarrow> bool \<Rightarrow> JITSymbol option" where
  "findSymbolIn layer handle name flag =
     (case layer handle of None \<Rightarrow> None | Some moduleSet \<Rightarrow> findSymbolInSet moduleSet name flag)"

text \<open>Modelled from the spec: \<^verbatim>\<open>CompileLayer::addModuleSet\<close> is LLVM's; this is (a) of the
  contract. The handle the layer hands out is chosen by LLVM (an iterator into its list of
  live module sets), so it is an input \<open>fresh\<close> of the model; it differs from every live
  handle, which is the side condition \<open>fresh \<notin> dom layer\<close> wherever a statement needs it.
  The resolver serves the undefined references of the new modules while they are linked,
  not the queries for the names they define; \<open>'s\<close> is the state the resolver reads when it
  is called.\<close>

definition addModuleSet ::
  "CompileLayer \<Rightarrow> Module list \<Rightarrow> ('s \<Rightarrow> string \<Rightarrow> SymbolInfo) \<Rightarrow> ModuleHandle
     \<Rightarrow> ModuleHandle \<times> CompileLayer" where
  "addModuleSet layer moduleSet resolver fresh = (fresh, layer(fresh \<mapsto> moduleSet))"

text \<open>Modelled from the spec: \<^verbatim>\<open>CompileLayer::removeModuleSet\<close> is LLVM's; this is (c) of the
  contract.\<close>

definition removeModuleSet :: "CompileLayer \<Rightarrow> ModuleHandle \<Rightarrow> CompileLayer" where
  "removeModuleSet layer handle = layer(handle := None)"

text \<open>
  The other two collaborators are parameters: \<open>getNameWithPrefix\<close> is
  \<^verbatim>\<open>llvm::Mangler::getNameWithPrefix\<close> as a function of the name and the data layout,
  \<open>getSymbolAddressInProcess\<close> is \<^verbatim>\<open>llvm::RTDyldMemoryManager::getSymbolAddressInProcess\<close>
  (0 when the process has no such symbol), and \<open>createDataLayout\<close> is the data layout of the
  target machine that \<^verbatim>\<open>EngineBuilder().selectTarget()\<close> picks. \<open>'dl\<close> stands for
  \<^verbatim>\<open>llvm::DataLayout\<close>.
\<close>

record 'dl LLVM =
  createDataLayout :: 'dl
  getNameWithPrefix :: "string \<Rightarrow> 'dl \<Rightarrow> string"
  getSymbolAddressInProcess :: "string \<Rightarrow> TargetAddress"

text \<open>The members of \<^verbatim>\<open>class JIT\<close> that the operations read or write. \<^verbatim>\<open>targetMachine\<close> is read
  only to build \<^verbatim>\<open>dataLayout\<close>, and \<^verbatim>\<open>objectLayer\<close> only through \<^verbatim>\<open>compileLayer\<close>.\<close>

record 'dl JIT =
  dataLayout :: 'dl
  compileLayer :: CompileLayer
  moduleHandles :: "ModuleHandle list"

text \<open>How a call ends. The source raises nothing and returns no error code; \<open>Signals\<close> is the
  vocabulary of the specification's error conditions, \<open>Undefined\<close> is undefined behaviour of
  C++ (here: erasing the end iterator of a vector).\<close>

datatype error = UnknownHandle

datatype 'a outcome = Returns 'a | Signals error | Undefined

section \<open>The operations\<close>

text \<open>\<^verbatim>\<open>JIT::JIT()\<close>: the layers and the vector start empty.\<close>

definition JIT_new :: "'dl LLVM \<Rightarrow> 'dl JIT" where
  "JIT_new env = \<lparr>dataLayout = createDataLayout env, compileLayer = Map.empty, moduleHandles = []\<rparr>"

text \<open>\<^verbatim>\<open>JIT::mangle\<close>. The member functions are not \<^verbatim>\<open>const\<close>: each returns the manager with its
  result.\<close>

definition mangle :: "'dl LLVM \<Rightarrow> 'dl JIT \<Rightarrow> string \<Rightarrow> string \<times> 'dl JIT" where
  "mangle env jit name = (getNameWithPrefix env name (dataLayout jit), jit)"

text \<open>The loop of \<^verbatim>\<open>JIT::findMangledSymbol\<close> over the handles still to visit.\<close>

fun findMangledSymbol_loop ::
  "'dl JIT \<Rightarrow> ModuleHandle list \<Rightarrow> string \<Rightarrow> JITSymbol option \<times> 'dl JIT" where
  "findMangledSymbol_loop jit [] name = (None, jit)"
| "findMangledSymbol_loop jit (handle # rest) name =
     (case findSymbolIn (compileLayer jit) handle name True of
        Some symbol \<Rightarrow> (Some symbol, jit)
      | None \<Rightarrow> findMangledSymbol_loop jit rest name)"

text \<open>\<^verbatim>\<open>JIT::findMangledSymbol\<close>: the loop runs from \<^verbatim>\<open>rbegin\<close> to \<^verbatim>\<open>rend\<close>, then the host process
  is asked.\<close>

definition findMangledSymbol ::
  "'dl LLVM \<Rightarrow> 'dl JIT \<Rightarrow> string \<Rightarrow> JITSymbol option \<times> 'dl JIT" where
  "findMangledSymbol env jit name =
     (case findMangledSymbol_loop jit (rev (moduleHandles jit)) name of
        (Some symbol, jit') \<Rightarrow> (Some symbol, jit')
      | (None, jit') \<Rightarrow>
          (let symbolAddress = getSymbolAddressInProcess env name
           in if symbolAddress \<noteq> 0
              then (Some \<lparr>getAddress = symbolAddress, getFlags = {Exported}\<rparr>, jit')
              else (None, jit')))"

text \<open>\<^verbatim>\<open>JIT::findSymbol\<close>.\<close>

definition findSymbol :: "'dl LLVM \<Rightarrow> 'dl JIT \<Rightarrow> string \<Rightarrow> JITSymbol option \<times> 'dl JIT" where
  "findSymbol env jit name =
     (case mangle env jit name of (mangledName, jit') \<Rightarrow> findMangledSymbol env jit' mangledName)"

text \<open>The first lambda of \<^verbatim>\<open>JIT::addModule\<close>. It captures the manager by reference, so it reads
  the manager of the moment it is called. (The second lambda answers null for every name.)\<close>

definition resolver :: "'dl LLVM \<Rightarrow> 'dl JIT \<Rightarrow> string \<Rightarrow> SymbolInfo" where
  "resolver env jit name =
     (case fst (findMangledSymbol env jit name) of
        Some symbol \<Rightarrow> \<lparr>infoAddress = getAddress symbol, infoFlags = getFlags symbol\<rparr>
      | None \<Rightarrow> \<lparr>infoAddress = 0, infoFlags = {}\<rparr>)"

text \<open>\<^verbatim>\<open>JIT::addModule\<close>; \<open>fresh\<close> is the handle the compile layer is about to hand out.\<close>

definition addModule ::
  "'dl LLVM \<Rightarrow> 'dl JIT \<Rightarrow> Module \<Rightarrow> ModuleHandle \<Rightarrow> ModuleHandle \<times> 'dl JIT" where
  "addModule env jit m fresh =
     (let moduleSet = [m]
      in case addModuleSet (compileLayer jit) moduleSet (resolver env) fresh of
           (moduleHandle, layer) \<Rightarrow>
             (moduleHandle,
              jit\<lparr>compileLayer := layer, moduleHandles := moduleHandles jit @ [moduleHandle]\<rparr>))"

text \<open>\<^verbatim>\<open>std::find\<close> over a vector: the position of the first element equal to \<open>x\<close>, the length
  (the end iterator) when there is none.\<close>

fun std_find :: "'a list \<Rightarrow> 'a \<Rightarrow> nat" where
  "std_find [] x = 0"
| "std_find (y # ys) x = (if y = x then 0 else Suc (std_find ys x))"

text \<open>\<^verbatim>\<open>std::vector::erase\<close> of one position: the end iterator cannot be erased.\<close>

definition erase :: "'a list \<Rightarrow> nat \<Rightarrow> 'a list outcome" where
  "erase xs i = (if i < length xs then Returns (take i xs @ drop (Suc i) xs) else Undefined)"

text \<open>\<^verbatim>\<open>JIT::removeModule\<close>.\<close>

definition removeModule :: "'dl JIT \<Rightarrow> ModuleHandle \<Rightarrow> 'dl JIT outcome" where
  "removeModule jit moduleHandle =
     (case erase (moduleHandles jit) (std_find (moduleHandles jit) moduleHandle) of
        Returns handles \<Rightarrow>
          Returns (jit\<lparr>moduleHandles := handles,
                       compileLayer := removeModuleSet (compileLayer jit) moduleHandle\<rparr>)
      | Signals e \<Rightarrow> Signals e
      | Undefined \<Rightarrow> Undefined)"

text \<open>The removal as the specification words it (section 4.1): the entry is erased when the
  handle is in the registry, and the condition \<open>UnknownHandle\<close> is signalled when it is not.
  Compared with \<open>removeModule\<close> above.\<close>

definition removeModule_spec :: "'dl JIT \<Rightarrow> ModuleHandle \<Rightarrow> 'dl JIT outcome" where
  "removeModule_spec jit moduleHandle =
     (if moduleHandle \<in> set (moduleHandles jit)
      then Returns (jit\<lparr>moduleHandles := remove1 moduleHandle (moduleHandles jit),
                        compileLayer := removeModuleSet (compileLayer jit) moduleHandle\<rparr>)
      else Signals UnknownHandle)"

text \<open>The states of the manager: the new manager, and what the three public operations
  make of a state. The compile layer hands out a handle that differs from its live ones.\<close>

inductive reachable :: "'dl LLVM \<Rightarrow> 'dl JIT \<Rightarrow> bool" for env :: "'dl LLVM" where
  reachable_new: "reachable env (JIT_new env)"
| reachable_add:
    "reachable env jit \<Longrightarrow> fresh \<notin> dom (compileLayer jit) \<Longrightarrow>
     reachable env (snd (addModule env jit m fresh))"
| reachable_remove:
    "reachable env jit \<Longrightarrow> removeModule jit moduleHandle = Returns jit' \<Longrightarrow> reachable env jit'"
| reachable_find:
    "reachable env jit \<Longrightarrow> reachable env (snd (findSymbol env jit name))"

text \<open>A sequence of submissions with no removal between them: each element is a module and
  the handle the compile layer hands out for it.\<close>

fun addModules :: "'dl LLVM \<Rightarrow> 'dl JIT \<Rightarrow> (Module \<times> ModuleHandle) list \<Rightarrow> 'dl JIT" where
  "addModules env jit [] = jit"
| "addModules env jit ((m, fresh) # rest) = addModules env (snd (addModule env jit m fresh)) rest"

section \<open>Example manager\<close>

text \<open>A host whose mangler prefixes an underscore and whose process exports \<^verbatim>\<open>_puts\<close>, and two
  modules that both define \<^verbatim>\<open>_add\<close>; only module B defines \<^verbatim>\<open>_mul\<close>.\<close>

definition demoEnv :: "unit LLVM" where
  "demoEnv = \<lparr>createDataLayout = (),
              getNameWithPrefix = (\<lambda>name dl. CHR ''_'' # name),
              getSymbolAddressInProcess = (\<lambda>name. if name = ''_puts'' then 4096 else 0)\<rparr>"

definition moduleA :: Module where
  "moduleA = (\<lambda>name flag. if name = ''_add'' then Some \<lparr>getAddress = 100, getFlags = {Exported}\<rparr> else None)"

definition moduleB :: Module where
  "moduleB = (\<lambda>name flag. if name = ''_add'' \<or> name = ''_puts'' \<or> name = ''_mul''
                           then Some \<lparr>getAddress = 200, getFlags = {Exported}\<rparr> else None)"

definition jitA :: "unit JIT" where
  "jitA = snd (addModule demoEnv (JIT_new demoEnv) moduleA 10)"

definition jitAB :: "unit JIT" where
  "jitAB = snd (addModule demoEnv jitA moduleB 20)"

text \<open>The manager after module A (the only module) has been removed again.\<close>

definition jitGone :: "unit JIT" where
  "jitGone = jitA\<lparr>moduleHandles := [], compileLayer := removeModuleSet (compileLayer jitA) 10\<rparr>"

text \<open>The manager after module B has been removed from the two modules.\<close>

definition jitBGone :: "unit JIT" where
  "jitBGone = jitAB\<lparr>moduleHandles := [10], compileLayer := removeModuleSet (compileLayer jitAB) 20\<rparr>"

section \<open>Basic facts\<close>

lemma findSymbolInSet_single: "findSymbolInSet [m] name flag = m name flag"
  by (cases "m name flag") simp_all

lemma findMangledSymbol_loop_state: "snd (findMangledSymbol_loop jit hs name) = jit"
  by (induction hs) (auto split: option.split)

lemma findMangledSymbol_state: "snd (findMangledSymbol env jit name) = jit"
proof -
  obtain r where r: "findMangledSymbol_loop jit (rev (moduleHandles jit)) name = (r, jit)"
    using findMangledSymbol_loop_state [of jit "rev (moduleHandles jit)" name]
    by (cases "findMangledSymbol_loop jit (rev (moduleHandles jit)) name") auto
  show ?thesis
    by (cases r) (simp_all add: findMangledSymbol_def r Let_def)
qed

lemma findSymbol_state: "snd (findSymbol env jit name) = jit"
  by (simp add: findSymbol_def mangle_def findMangledSymbol_state)

lemma moduleHandles_jitA: "moduleHandles jitA = [10]"
  by (simp add: jitA_def addModule_def addModuleSet_def JIT_new_def)

lemma moduleHandles_jitAB: "moduleHandles jitAB = [10, 20]"
  by (simp add: jitAB_def addModule_def addModuleSet_def moduleHandles_jitA)

lemma findMangledSymbol_loop_none:
  "\<forall>h\<in>set hs. findSymbolIn (compileLayer jit) h name True = None \<Longrightarrow>
   fst (findMangledSymbol_loop jit hs name) = None"
  by (induction hs) simp_all

lemma findMangledSymbol_loop_first:
  "\<forall>h'\<in>set before. findSymbolIn (compileLayer jit) h' name True = None \<Longrightarrow>
   findSymbolIn (compileLayer jit) h name True = Some symbol \<Longrightarrow>
   fst (findMangledSymbol_loop jit (before @ h # after) name) = Some symbol"
  by (induction before) simp_all

lemma findMangledSymbol_fst:
  "fst (findMangledSymbol env jit name) =
     (case fst (findMangledSymbol_loop jit (rev (moduleHandles jit)) name) of
        Some symbol \<Rightarrow> Some symbol
      | None \<Rightarrow>
          if getSymbolAddressInProcess env name \<noteq> 0
          then Some \<lparr>getAddress = getSymbolAddressInProcess env name, getFlags = {Exported}\<rparr>
          else None)"
  by (cases "findMangledSymbol_loop jit (rev (moduleHandles jit)) name")
     (simp add: findMangledSymbol_def Let_def split: option.split)

lemma findMangledSymbol_module:
  assumes "moduleHandles jit = older @ h # newer"
    and "\<forall>h'\<in>set newer. findSymbolIn (compileLayer jit) h' name True = None"
    and "findSymbolIn (compileLayer jit) h name True = Some symbol"
  shows "fst (findMangledSymbol env jit name) = Some symbol"
proof -
  have "rev (moduleHandles jit) = rev newer @ h # rev older"
    using assms(1) by simp
  moreover have "\<forall>h'\<in>set (rev newer). findSymbolIn (compileLayer jit) h' name True = None"
    using assms(2) by simp
  ultimately have "fst (findMangledSymbol_loop jit (rev (moduleHandles jit)) name) = Some symbol"
    using assms(3) by (simp add: findMangledSymbol_loop_first)
  then show ?thesis
    by (simp add: findMangledSymbol_fst)
qed

lemma findMangledSymbol_process:
  assumes "\<forall>h\<in>set (moduleHandles jit). findSymbolIn (compileLayer jit) h name True = None"
  shows "fst (findMangledSymbol env jit name) =
     (if getSymbolAddressInProcess env name \<noteq> 0
      then Some \<lparr>getAddress = getSymbolAddressInProcess env name, getFlags = {Exported}\<rparr>
      else None)"
proof -
  have "fst (findMangledSymbol_loop jit (rev (moduleHandles jit)) name) = None"
    using assms by (intro findMangledSymbol_loop_none) simp
  then show ?thesis
    by (simp add: findMangledSymbol_fst)
qed

lemma compileLayer_jitAB:
  "compileLayer jitAB 10 = Some [moduleA]" "compileLayer jitAB 20 = Some [moduleB]"
  by (simp_all add: jitAB_def jitA_def addModule_def addModuleSet_def JIT_new_def)

lemma findSymbolIn_jitAB:
  "findSymbolIn (compileLayer jitAB) 10 name flag = moduleA name flag"
  "findSymbolIn (compileLayer jitAB) 20 name flag = moduleB name flag"
  by (simp_all only: findSymbolIn_def compileLayer_jitAB option.case findSymbolInSet_single)

lemma findSymbolIn_jitA:
  "findSymbolIn (compileLayer jitA) 10 name flag = moduleA name flag"
  by (simp add: findSymbolIn_def jitA_def addModule_def addModuleSet_def JIT_new_def
        split: option.split)

lemma std_find_less: "x \<in> set xs \<Longrightarrow> std_find xs x < length xs"
  by (induction xs) auto

lemma std_find_end: "x \<notin> set xs \<Longrightarrow> std_find xs x = length xs"
  by (induction xs) auto

lemma erase_std_find: "x \<in> set xs \<Longrightarrow> erase xs (std_find xs x) = Returns (remove1 x xs)"
proof (induction xs)
  case Nil
  then show ?case by simp
next
  case (Cons y ys)
  show ?case
  proof (cases "y = x")
    case True
    then show ?thesis by (simp add: erase_def)
  next
    case False
    with Cons.prems have "x \<in> set ys" by simp
    with Cons.IH have "erase ys (std_find ys x) = Returns (remove1 x ys)" by simp
    with False show ?thesis
      by (simp add: erase_def split: if_splits)
  qed
qed

lemma erase_std_find_absent: "x \<notin> set xs \<Longrightarrow> erase xs (std_find xs x) = Undefined"
  by (simp add: erase_def std_find_end)

lemma removeModule_present:
  "h \<in> set (moduleHandles jit) \<Longrightarrow>
   removeModule jit h =
     Returns (jit\<lparr>moduleHandles := remove1 h (moduleHandles jit),
                  compileLayer := removeModuleSet (compileLayer jit) h\<rparr>)"
  by (simp add: removeModule_def erase_std_find)

lemma removeModule_absent: "h \<notin> set (moduleHandles jit) \<Longrightarrow> removeModule jit h = Undefined"
  by (simp add: removeModule_def erase_std_find_absent)

lemma removeModule_Returns:
  assumes "removeModule jit h = Returns jit'"
  shows "h \<in> set (moduleHandles jit)"
    and "moduleHandles jit' = remove1 h (moduleHandles jit)"
    and "compileLayer jit' = (compileLayer jit)(h := None)"
    and "dataLayout jit' = dataLayout jit"
proof -
  show mem: "h \<in> set (moduleHandles jit)"
    using assms removeModule_absent [of h jit] by (cases "h \<in> set (moduleHandles jit)") simp_all
  from removeModule_present [OF mem] assms
  have eq: "jit' = jit\<lparr>moduleHandles := remove1 h (moduleHandles jit),
                       compileLayer := removeModuleSet (compileLayer jit) h\<rparr>"
    by simp
  show "moduleHandles jit' = remove1 h (moduleHandles jit)"
    by (simp add: eq)
  show "compileLayer jit' = (compileLayer jit)(h := None)"
    by (simp add: eq removeModuleSet_def)
  show "dataLayout jit' = dataLayout jit"
    by (simp add: eq)
qed

lemma removeModule_jitA: "removeModule jitA 10 = Returns jitGone"
  by (simp add: removeModule_present moduleHandles_jitA jitGone_def)

lemma moduleHandles_jitGone: "moduleHandles jitGone = []"
  by (simp add: jitGone_def)

lemma reachable_registry:
  "reachable env jit \<Longrightarrow>
   distinct (moduleHandles jit) \<and> set (moduleHandles jit) = dom (compileLayer jit)"
proof (induction rule: reachable.induct)
  case reachable_new
  show ?case by (simp add: JIT_new_def)
next
  case (reachable_add jit fresh m)
  then show ?case
    by (auto simp add: addModule_def addModuleSet_def)
next
  case (reachable_remove jit moduleHandle jit')
  have hs: "moduleHandles jit' = remove1 moduleHandle (moduleHandles jit)"
    and cl: "compileLayer jit' = (compileLayer jit)(moduleHandle := None)"
    using removeModule_Returns [OF reachable_remove.hyps(2)] by simp_all
  from reachable_remove.IH have d: "distinct (moduleHandles jit)"
    and e: "set (moduleHandles jit) = dom (compileLayer jit)" by simp_all
  have "set (moduleHandles jit') = set (moduleHandles jit) - {moduleHandle}"
    using d by (simp add: hs)
  also have "\<dots> = dom (compileLayer jit')"
    by (simp add: cl e)
  finally show ?case
    using d by (simp add: hs)
next
  case (reachable_find jit name)
  then show ?case by (simp add: findSymbol_state)
qed

lemma addModule_fields:
  "moduleHandles (snd (addModule env jit m fresh)) = moduleHandles jit @ [fresh]"
  "compileLayer (snd (addModule env jit m fresh)) = (compileLayer jit)(fresh \<mapsto> [m])"
  "dataLayout (snd (addModule env jit m fresh)) = dataLayout jit"
  by (simp_all add: addModule_def addModuleSet_def)

lemma addModules_handles:
  "moduleHandles (addModules env jit subs) = moduleHandles jit @ map snd subs"
  by (induction env jit subs rule: addModules.induct) (simp_all add: addModule_fields)

lemma addModules_dataLayout: "dataLayout (addModules env jit subs) = dataLayout jit"
  by (induction env jit subs rule: addModules.induct) (simp_all add: addModule_fields)

lemma addModules_layer_other:
  "h \<notin> snd ` set subs \<Longrightarrow> compileLayer (addModules env jit subs) h = compileLayer jit h"
  by (induction env jit subs rule: addModules.induct) (simp_all add: addModule_fields)

lemma addModules_layer:
  "distinct (map snd subs) \<Longrightarrow> (m, h) \<in> set subs \<Longrightarrow>
   compileLayer (addModules env jit subs) h = Some [m]"
proof (induction env jit subs rule: addModules.induct)
  case (1 env jit)
  then show ?case by simp
next
  case (2 env jit m' fresh rest)
  show ?case
  proof (cases "(m, h) \<in> set rest")
    case True
    with 2 show ?thesis by simp
  next
    case False
    with "2.prems" have eq: "m' = m" "fresh = h" by simp_all
    with "2.prems" have "h \<notin> snd ` set rest" by simp
    then show ?thesis
      by (simp add: eq addModules_layer_other addModule_fields)
  qed
qed

lemma addModules_reachable:
  "reachable env jit \<Longrightarrow> distinct (map snd subs) \<Longrightarrow>
   snd ` set subs \<inter> dom (compileLayer jit) = {} \<Longrightarrow>
   reachable env (addModules env jit subs)"
proof (induction env jit subs rule: addModules.induct)
  case (1 env jit)
  then show ?case by simp
next
  case (2 env jit m fresh rest)
  from "2.prems" have "fresh \<notin> dom (compileLayer jit)" by auto
  with "2.prems"(1) have r: "reachable env (snd (addModule env jit m fresh))"
    by (rule reachable_add)
  have "snd ` set rest \<inter> dom (compileLayer (snd (addModule env jit m fresh))) = {}"
    using "2.prems"(2,3) by (auto simp add: addModule_fields)
  with 2 r show ?case by simp
qed

lemma reachable_jitAB: "reachable demoEnv jitAB"
proof -
  have "jitAB = addModules demoEnv (JIT_new demoEnv) [(moduleA, 10), (moduleB, 20)]"
    by (simp add: jitAB_def jitA_def)
  moreover have "reachable demoEnv (addModules demoEnv (JIT_new demoEnv) [(moduleA, 10), (moduleB, 20)])"
  proof (rule addModules_reachable)
    show "reachable demoEnv (JIT_new demoEnv)" by (rule reachable_new)
    show "distinct (map snd [(moduleA, 10::nat), (moduleB, 20)])" by simp
    show "snd ` set [(moduleA, 10), (moduleB, 20)] \<inter> dom (compileLayer (JIT_new demoEnv)) = {}"
      by (simp add: JIT_new_def)
  qed
  ultimately show ?thesis by simp
qed

lemma findSymbol_fst:
  "fst (findSymbol env jit name) =
   fst (findMangledSymbol env jit (getNameWithPrefix env name (dataLayout jit)))"
  by (simp add: findSymbol_def mangle_def)

lemma removeModule_jitAB: "removeModule jitAB 20 = Returns jitBGone"
  by (simp add: removeModule_present moduleHandles_jitAB jitBGone_def)

lemma findSymbolIn_removed:
  "h' \<noteq> h \<Longrightarrow> findSymbolIn (layer(h := None)) h' name flag = findSymbolIn layer h' name flag"
  by (simp add: findSymbolIn_def)

lemma remove1_split:
  assumes "xs = older @ y # newer" and "y \<noteq> x"
  shows "\<exists>older' newer'. remove1 x xs = older' @ y # newer' \<and> set newer' \<subseteq> set newer"
proof (cases "x \<in> set older")
  case True
  then have "remove1 x xs = remove1 x older @ y # newer"
    using assms by (simp add: remove1_append)
  then show ?thesis by blast
next
  case False
  then have "remove1 x xs = older @ y # remove1 x newer"
    using assms by (simp add: remove1_append)
  moreover have "set (remove1 x newer) \<subseteq> set newer"
    by (rule set_remove1_subset)
  ultimately show ?thesis by blast
qed

section \<open>Adding a module\<close>

text \<open>
  Claim C5. In every state of the manager, \<open>addModule\<close> puts exactly one handle at the end of
  the registry, keeps the handles that were registered before in their places and order,
  and returns to the caller the very handle it appended, which is the one the compile layer
  handed out.
\<close>

theorem addModule_appends:
  "moduleHandles (snd (addModule env jit m fresh)) = moduleHandles jit @ [fst (addModule env jit m fresh)]
   \<and> fst (addModule env jit m fresh) = fresh
   \<and> take (length (moduleHandles jit)) (moduleHandles (snd (addModule env jit m fresh))) = moduleHandles jit
   \<and> length (moduleHandles (snd (addModule env jit m fresh))) = Suc (length (moduleHandles jit))"
  by (simp add: addModule_def addModuleSet_def)

theorem addModule_appends_witness:
  "moduleHandles (snd (addModule demoEnv jitA moduleB 20)) = [10, 20]
   \<and> fst (addModule demoEnv jitA moduleB 20) = 20"
  using addModule_appends [of demoEnv jitA moduleB 20]
  by (simp add: moduleHandles_jitA)

section \<open>Lookups leave the manager as it is\<close>

text \<open>
  Claim C10. \<open>findSymbol\<close> and \<open>findMangledSymbol\<close> are read-only: for every name and every
  state of the manager, the manager after the lookup is the manager before it, so the
  handle registry and its order are the same, whether the lookup finds a symbol or not.
\<close>

theorem findSymbol_read_only:
  "snd (findSymbol env jit name) = jit
   \<and> snd (findMangledSymbol env jit name) = jit
   \<and> moduleHandles (snd (findSymbol env jit name)) = moduleHandles jit
   \<and> moduleHandles (snd (findMangledSymbol env jit name)) = moduleHandles jit"
  by (simp add: findSymbol_state findMangledSymbol_state)

section \<open>The order of resolution\<close>

text \<open>
  Claim C1. For every state of the manager and every mangled name \<open>m\<close>, \<open>findMangledSymbol\<close>
  searches the handles of the registry from the most recently added to the oldest and
  returns the symbol of the first handle that defines \<open>m\<close> (a handle defines \<open>m\<close> when the
  compile layer's \<open>findSymbolIn\<close> answers a symbol for it): whatever the older handles and the
  host process hold, the newest defining handle wins. Only when no handle of the registry
  defines \<open>m\<close> is the answer that of the symbol table of the host process, and when the
  process has no such symbol either, the result is absent.
\<close>

theorem findMangledSymbol_order:
  "(moduleHandles jit = older @ h # newer
      \<and> findSymbolIn (compileLayer jit) h m True = Some symbol
      \<and> (\<forall>h'\<in>set newer. findSymbolIn (compileLayer jit) h' m True = None)
     \<longrightarrow> fst (findMangledSymbol env jit m) = Some symbol)
   \<and> ((\<forall>h\<in>set (moduleHandles jit). findSymbolIn (compileLayer jit) h m True = None)
       \<and> getSymbolAddressInProcess env m \<noteq> 0
     \<longrightarrow> fst (findMangledSymbol env jit m)
           = Some \<lparr>getAddress = getSymbolAddressInProcess env m, getFlags = {Exported}\<rparr>)
   \<and> ((\<forall>h\<in>set (moduleHandles jit). findSymbolIn (compileLayer jit) h m True = None)
       \<and> getSymbolAddressInProcess env m = 0
     \<longrightarrow> fst (findMangledSymbol env jit m) = None)"
proof (intro conjI impI)
  assume "moduleHandles jit = older @ h # newer
      \<and> findSymbolIn (compileLayer jit) h m True = Some symbol
      \<and> (\<forall>h'\<in>set newer. findSymbolIn (compileLayer jit) h' m True = None)"
  then show "fst (findMangledSymbol env jit m) = Some symbol"
    using findMangledSymbol_module [of jit older h newer m symbol env] by blast
next
  assume "(\<forall>h\<in>set (moduleHandles jit). findSymbolIn (compileLayer jit) h m True = None)
       \<and> getSymbolAddressInProcess env m \<noteq> 0"
  then show "fst (findMangledSymbol env jit m)
           = Some \<lparr>getAddress = getSymbolAddressInProcess env m, getFlags = {Exported}\<rparr>"
    by (simp add: findMangledSymbol_process)
next
  assume "(\<forall>h\<in>set (moduleHandles jit). findSymbolIn (compileLayer jit) h m True = None)
       \<and> getSymbolAddressInProcess env m = 0"
  then show "fst (findMangledSymbol env jit m) = None"
    by (simp add: findMangledSymbol_process)
qed

text \<open>In the example, module B (added last) shadows module A for \<^verbatim>\<open>_add\<close> and shadows the
  process for \<^verbatim>\<open>_puts\<close>; with module A alone \<^verbatim>\<open>_puts\<close> comes from the process, and \<^verbatim>\<open>_exit\<close> is
  nowhere.\<close>

theorem findMangledSymbol_order_witness:
  "fst (findMangledSymbol demoEnv jitAB ''_add'') = Some \<lparr>getAddress = 200, getFlags = {Exported}\<rparr>
   \<and> fst (findMangledSymbol demoEnv jitAB ''_puts'') = Some \<lparr>getAddress = 200, getFlags = {Exported}\<rparr>
   \<and> fst (findMangledSymbol demoEnv jitA ''_puts'') = Some \<lparr>getAddress = 4096, getFlags = {Exported}\<rparr>
   \<and> fst (findMangledSymbol demoEnv jitAB ''_exit'') = None"
proof -
  have a: "fst (findMangledSymbol demoEnv jitAB ''_add'') = Some \<lparr>getAddress = 200, getFlags = {Exported}\<rparr>"
    using findMangledSymbol_order [of jitAB "[10]" 20 "[]" "''_add''"
        "\<lparr>getAddress = 200, getFlags = {Exported}\<rparr>" demoEnv]
    by (simp add: moduleHandles_jitAB findSymbolIn_jitAB moduleB_def)
  have b: "fst (findMangledSymbol demoEnv jitAB ''_puts'') = Some \<lparr>getAddress = 200, getFlags = {Exported}\<rparr>"
    using findMangledSymbol_order [of jitAB "[10]" 20 "[]" "''_puts''"
        "\<lparr>getAddress = 200, getFlags = {Exported}\<rparr>" demoEnv]
    by (simp add: moduleHandles_jitAB findSymbolIn_jitAB moduleB_def)
  have c: "fst (findMangledSymbol demoEnv jitA ''_puts'') = Some \<lparr>getAddress = 4096, getFlags = {Exported}\<rparr>"
    using findMangledSymbol_order [of jitA "[]" 10 "[]" "''_puts''" undefined demoEnv]
    by (simp add: moduleHandles_jitA findSymbolIn_jitA moduleA_def demoEnv_def)
  have d: "fst (findMangledSymbol demoEnv jitAB ''_exit'') = None"
    using findMangledSymbol_order [of jitAB "[]" 10 "[20]" "''_exit''" undefined demoEnv]
    by (simp add: moduleHandles_jitAB findSymbolIn_jitAB moduleA_def moduleB_def demoEnv_def)
  from a b c d show ?thesis by blast
qed

section \<open>A name that nobody defines\<close>

text \<open>
  Claim C3. For every name that no handle of the registry defines (under its mangled form)
  and that the host process does not export, \<open>findSymbol\<close> returns: its result is the explicit
  empty symbol, together with the unchanged manager. The lookup has no other outcome: no
  error value and no undefined step.
\<close>

theorem findSymbol_not_found:
  assumes "\<forall>h\<in>set (moduleHandles jit).
             findSymbolIn (compileLayer jit) h (fst (mangle env jit name)) True = None"
    and "getSymbolAddressInProcess env (fst (mangle env jit name)) = 0"
  shows "findSymbol env jit name = (None, jit)"
proof -
  have "fst (findSymbol env jit name) = None"
    using assms by (simp add: findSymbol_def mangle_def findMangledSymbol_process)
  then show ?thesis
    using findSymbol_state [of env jit name]
    by (cases "findSymbol env jit name") simp
qed

theorem findSymbol_not_found_witness:
  "moduleHandles jitAB = [10, 20]
   \<and> findSymbolIn (compileLayer jitAB) 10 (fst (mangle demoEnv jitAB ''exit'')) True = None
   \<and> findSymbolIn (compileLayer jitAB) 20 (fst (mangle demoEnv jitAB ''exit'')) True = None
   \<and> getSymbolAddressInProcess demoEnv (fst (mangle demoEnv jitAB ''exit'')) = 0
   \<and> findSymbol demoEnv jitAB ''exit'' = (None, jitAB)"
proof -
  have h1: "\<forall>h\<in>set (moduleHandles jitAB).
       findSymbolIn (compileLayer jitAB) h (fst (mangle demoEnv jitAB ''exit'')) True = None"
    by (simp add: moduleHandles_jitAB findSymbolIn_jitAB mangle_def demoEnv_def moduleA_def moduleB_def)
  have h2: "getSymbolAddressInProcess demoEnv (fst (mangle demoEnv jitAB ''exit'')) = 0"
    by (simp add: mangle_def demoEnv_def)
  from h1 h2 findSymbol_not_found [OF h1 h2] show ?thesis
    by (simp add: moduleHandles_jitAB)
qed

section \<open>The fallback to the host process\<close>

text \<open>
  Claim C9. Whenever the lookup succeeds through the host process (no handle of the registry
  defines the mangled name, and the symbol table of the process has an address for it), the
  symbol returned carries the flag \<open>Exported\<close>, and its address is the one the process gave.
\<close>

theorem process_symbol_exported:
  assumes "\<forall>h\<in>set (moduleHandles jit). findSymbolIn (compileLayer jit) h m True = None"
    and "getSymbolAddressInProcess env m \<noteq> 0"
  shows "\<exists>symbol. fst (findMangledSymbol env jit m) = Some symbol
           \<and> Exported \<in> getFlags symbol
           \<and> getAddress symbol = getSymbolAddressInProcess env m"
  using assms by (simp add: findMangledSymbol_process)

theorem process_symbol_exported_witness:
  "moduleHandles jitA = [10]
   \<and> findSymbolIn (compileLayer jitA) 10 ''_puts'' True = None
   \<and> getSymbolAddressInProcess demoEnv ''_puts'' \<noteq> 0
   \<and> (\<exists>symbol. fst (findMangledSymbol demoEnv jitA ''_puts'') = Some symbol
           \<and> Exported \<in> getFlags symbol
           \<and> getAddress symbol = 4096)"
proof -
  have h1: "\<forall>h\<in>set (moduleHandles jitA). findSymbolIn (compileLayer jitA) h ''_puts'' True = None"
    by (simp add: moduleHandles_jitA findSymbolIn_jitA moduleA_def)
  have h2: "getSymbolAddressInProcess demoEnv ''_puts'' \<noteq> 0"
    by (simp add: demoEnv_def)
  have "getSymbolAddressInProcess demoEnv ''_puts'' = 4096"
    by (simp add: demoEnv_def)
  with h1 h2 process_symbol_exported [OF h1 h2] show ?thesis
    by (simp add: moduleHandles_jitA)
qed

section \<open>Removing a handle that is not registered\<close>

text \<open>
  Claim C4, as the specification states it: removing a handle that is not in the registry
  (for example a second removal of the same handle) signals \<open>UnknownHandle\<close> and leaves the
  registry as it was. The source has no membership test: \<^verbatim>\<open>std::find\<close> returns the end
  iterator and \<^verbatim>\<open>erase\<close> is applied to it. Module A is added, removed, and removed once more:
  the second removal is undefined, where the specification's removal signals
  \<open>UnknownHandle\<close>.
\<close>

theorem removeModule_twice_counterexample:
  "removeModule jitA 10 = Returns jitGone
   \<and> 10 \<notin> set (moduleHandles jitGone)
   \<and> removeModule jitGone 10 = Undefined
   \<and> removeModule_spec jitGone 10 = Signals UnknownHandle
   \<and> removeModule jitGone 10 \<noteq> removeModule_spec jitGone 10"
  by (simp add: removeModule_jitA removeModule_absent removeModule_spec_def moduleHandles_jitGone)

text \<open>
  Claim C4, amended. \<open>removeModule\<close> requires its handle to be in the registry. Then it
  returns, having erased the first entry equal to the handle and released the module set,
  with every other entry of the registry in place and in order; there it agrees with the
  removal of the specification. For a handle that is not in the registry the source makes no
  membership test and signals no \<open>UnknownHandle\<close>: the call is undefined.
\<close>

theorem removeModule_requires_registered:
  "(h \<in> set (moduleHandles jit) \<longrightarrow>
      removeModule jit h =
        Returns (jit\<lparr>moduleHandles := remove1 h (moduleHandles jit),
                     compileLayer := removeModuleSet (compileLayer jit) h\<rparr>)
      \<and> removeModule jit h = removeModule_spec jit h)
   \<and> (h \<notin> set (moduleHandles jit) \<longrightarrow>
      removeModule jit h = Undefined \<and> removeModule jit h \<noteq> Signals UnknownHandle)"
  by (simp add: removeModule_present removeModule_absent removeModule_spec_def)

theorem removeModule_requires_registered_witness:
  "10 \<in> set (moduleHandles jitAB)
   \<and> removeModule jitAB 10 =
        Returns (jitAB\<lparr>moduleHandles := [20],
                       compileLayer := removeModuleSet (compileLayer jitAB) 10\<rparr>)
   \<and> 10 \<notin> set (moduleHandles jitGone)
   \<and> removeModule jitGone 10 = Undefined"
  using removeModule_requires_registered [of 10 jitAB] removeModule_requires_registered [of 10 jitGone]
  by (simp add: moduleHandles_jitAB moduleHandles_jitGone)

section \<open>The registry holds no handle twice\<close>

text \<open>
  Claim C7. In every state that \<open>addModule\<close> and \<open>removeModule\<close> (and the lookups) reach from
  the new manager with its empty registry, no handle occurs twice in the registry. The
  compile layer hands out, for each submission, a handle that differs from its live ones;
  the registry holds exactly the live handles.
\<close>

theorem registry_distinct:
  assumes "reachable env jit"
  shows "distinct (moduleHandles jit)"
  using reachable_registry [OF assms] by simp

theorem registry_distinct_witness:
  "reachable demoEnv jitAB \<and> moduleHandles jitAB = [10, 20] \<and> distinct (moduleHandles jitAB)"
  using registry_distinct [OF reachable_jitAB] reachable_jitAB moduleHandles_jitAB by simp

section \<open>The last submission wins\<close>

text \<open>
  Claim C2. Take any sequence of submissions to the new manager, with no removal between
  them (the handles of the sequence differ from one another, as the compile layer hands
  them out). If a module of the sequence defines the mangled form of a name and no module
  submitted after it does, then resolving the name returns the symbol, hence the address,
  of that module, whatever the modules submitted before it define.
\<close>

theorem last_submission_wins:
  assumes "distinct (map snd subs)"
    and "subs = earlier @ (m, h) # later"
    and "mangled = fst (mangle env (JIT_new env) name)"
    and "m mangled True = Some symbol"
    and "\<forall>(m', h')\<in>set later. m' mangled True = None"
  shows "fst (findSymbol env (addModules env (JIT_new env) subs) name) = Some symbol"
proof -
  let ?jit = "addModules env (JIT_new env) subs"
  have mangled: "getNameWithPrefix env name (dataLayout ?jit) = mangled"
    by (simp add: assms(3) mangle_def addModules_dataLayout)
  have handles: "moduleHandles ?jit = map snd earlier @ h # map snd later"
    by (simp add: addModules_handles JIT_new_def assms(2))
  have layer: "compileLayer ?jit h' = Some [m']" if "(m', h') \<in> set subs" for m' h'
    using assms(1) that by (rule addModules_layer)
  have "compileLayer ?jit h = Some [m]"
    by (rule layer) (simp add: assms(2))
  then have here: "findSymbolIn (compileLayer ?jit) h mangled True = Some symbol"
    by (simp add: findSymbolIn_def findSymbolInSet_single assms(4))
  have newer: "\<forall>h'\<in>set (map snd later). findSymbolIn (compileLayer ?jit) h' mangled True = None"
  proof
    fix h' assume "h' \<in> set (map snd later)"
    then obtain m' where in_later: "(m', h') \<in> set later" by auto
    then have "compileLayer ?jit h' = Some [m']"
      by (intro layer) (simp add: assms(2))
    moreover from in_later assms(5) have "m' mangled True = None" by auto
    ultimately show "findSymbolIn (compileLayer ?jit) h' mangled True = None"
      by (simp add: findSymbolIn_def findSymbolInSet_single)
  qed
  have "fst (findMangledSymbol env ?jit mangled) = Some symbol"
    using handles newer here by (rule findMangledSymbol_module)
  then show ?thesis
    by (simp add: findSymbol_fst mangled)
qed

text \<open>Module A, then module B: \<^verbatim>\<open>add\<close> resolves to the address in module B, although module A
  defines it too.\<close>

theorem last_submission_wins_witness:
  "distinct (map snd [(moduleA, 10::nat), (moduleB, 20)])
   \<and> moduleA ''_add'' True = Some \<lparr>getAddress = 100, getFlags = {Exported}\<rparr>
   \<and> moduleB ''_add'' True = Some \<lparr>getAddress = 200, getFlags = {Exported}\<rparr>
   \<and> fst (findSymbol demoEnv (addModules demoEnv (JIT_new demoEnv) [(moduleA, 10), (moduleB, 20)]) ''add'')
       = Some \<lparr>getAddress = 200, getFlags = {Exported}\<rparr>"
proof -
  have d: "distinct (map snd [(moduleA, 10::nat), (moduleB, 20)])" by simp
  have s: "[(moduleA, 10::nat), (moduleB, 20)] = [(moduleA, 10)] @ (moduleB, 20) # []" by simp
  have n: "''_add'' = fst (mangle demoEnv (JIT_new demoEnv) ''add'')"
    by (simp add: mangle_def demoEnv_def)
  have b: "moduleB ''_add'' True = Some \<lparr>getAddress = 200, getFlags = {Exported}\<rparr>"
    by (simp add: moduleB_def)
  have l: "\<forall>(m', h')\<in>set ([] :: (Module \<times> ModuleHandle) list). m' ''_add'' True = None" by simp
  have a: "moduleA ''_add'' True = Some \<lparr>getAddress = 100, getFlags = {Exported}\<rparr>"
    by (simp add: moduleA_def)
  from last_submission_wins [OF d s n b l] d a b show ?thesis by blast
qed

section \<open>Lookups after a removal\<close>

text \<open>
  Claim C6. Let a handle be removed from a reachable manager, and let a name be resolved
  afterwards. If no other handle of the registry defines the mangled name (only the removed
  module did), the result is absent when the host process does not export the name, and it
  is the process's address, flagged \<open>Exported\<close>, when it does. If an older module that is still
  registered defines the name, and no newer module other than the removed one does, the
  result is the symbol of that older module: the removal brings the shadowed definition
  back.
\<close>

theorem removeModule_then_findSymbol:
  assumes "reachable env jit"
    and "removeModule jit h = Returns jit'"
    and "mangled = fst (mangle env jit' name)"
  shows "((\<forall>h'\<in>set (moduleHandles jit). h' \<noteq> h \<longrightarrow>
              findSymbolIn (compileLayer jit) h' mangled True = None)
          \<and> getSymbolAddressInProcess env mangled = 0
         \<longrightarrow> fst (findSymbol env jit' name) = None)
       \<and> ((\<forall>h'\<in>set (moduleHandles jit). h' \<noteq> h \<longrightarrow>
              findSymbolIn (compileLayer jit) h' mangled True = None)
          \<and> getSymbolAddressInProcess env mangled \<noteq> 0
         \<longrightarrow> fst (findSymbol env jit' name)
               = Some \<lparr>getAddress = getSymbolAddressInProcess env mangled, getFlags = {Exported}\<rparr>)
       \<and> (moduleHandles jit = older @ h_old # newer \<and> h_old \<noteq> h
          \<and> findSymbolIn (compileLayer jit) h_old mangled True = Some symbol
          \<and> (\<forall>h'\<in>set newer. h' \<noteq> h \<longrightarrow>
                findSymbolIn (compileLayer jit) h' mangled True = None)
         \<longrightarrow> fst (findSymbol env jit' name) = Some symbol)"
proof -
  have hs: "moduleHandles jit' = remove1 h (moduleHandles jit)"
    and cl: "compileLayer jit' = (compileLayer jit)(h := None)"
    using removeModule_Returns [OF assms(2)] by simp_all
  have d: "distinct (moduleHandles jit)"
    using reachable_registry [OF assms(1)] by simp
  have gone: "h \<notin> set (moduleHandles jit')"
    using d by (simp add: hs)
  have sub: "set (moduleHandles jit') \<subseteq> set (moduleHandles jit)"
    by (simp add: hs set_remove1_subset)
  have same: "findSymbolIn (compileLayer jit') h' mangled True
              = findSymbolIn (compileLayer jit) h' mangled True" if "h' \<noteq> h" for h'
    using that by (simp add: cl findSymbolIn_removed)
  have find: "fst (findSymbol env jit' name) = fst (findMangledSymbol env jit' mangled)"
    by (simp add: findSymbol_fst assms(3) mangle_def)
  have process: "fst (findMangledSymbol env jit' mangled) =
      (if getSymbolAddressInProcess env mangled \<noteq> 0
       then Some \<lparr>getAddress = getSymbolAddressInProcess env mangled, getFlags = {Exported}\<rparr>
       else None)"
    if others: "\<forall>h'\<in>set (moduleHandles jit). h' \<noteq> h \<longrightarrow>
              findSymbolIn (compileLayer jit) h' mangled True = None"
  proof (rule findMangledSymbol_process)
    show "\<forall>h'\<in>set (moduleHandles jit'). findSymbolIn (compileLayer jit') h' mangled True = None"
    proof
      fix h' assume in': "h' \<in> set (moduleHandles jit')"
      with gone have ne: "h' \<noteq> h" by auto
      from in' sub have "h' \<in> set (moduleHandles jit)" by auto
      with others ne same [OF ne] show "findSymbolIn (compileLayer jit') h' mangled True = None"
        by simp
    qed
  qed
  have older: "fst (findMangledSymbol env jit' mangled) = Some symbol"
    if split: "moduleHandles jit = older @ h_old # newer" and ne: "h_old \<noteq> h"
      and here: "findSymbolIn (compileLayer jit) h_old mangled True = Some symbol"
      and newer: "\<forall>h'\<in>set newer. h' \<noteq> h \<longrightarrow> findSymbolIn (compileLayer jit) h' mangled True = None"
  proof -
    from remove1_split [OF split ne] obtain older' newer'
      where split': "moduleHandles jit' = older' @ h_old # newer'"
        and sub': "set newer' \<subseteq> set newer"
      by (auto simp add: hs)
    have "\<forall>h'\<in>set newer'. findSymbolIn (compileLayer jit') h' mangled True = None"
    proof
      fix h' assume in': "h' \<in> set newer'"
      then have "h' \<in> set (moduleHandles jit')" by (simp add: split')
      with gone have ne': "h' \<noteq> h" by auto
      from in' sub' have "h' \<in> set newer" by auto
      with newer ne' same [OF ne'] show "findSymbolIn (compileLayer jit') h' mangled True = None"
        by simp
    qed
    moreover have "findSymbolIn (compileLayer jit') h_old mangled True = Some symbol"
      using here same [OF ne] by simp
    ultimately show ?thesis
      using split' by (intro findMangledSymbol_module [of jit' older' h_old newer'])
  qed
  show ?thesis
    using process older by (simp add: find)
qed

text \<open>Module B is removed from the manager with modules A and B. \<^verbatim>\<open>mul\<close>, which only module B
  defined, is absent; \<^verbatim>\<open>puts\<close>, which module B shadowed, comes from the host process;
  \<^verbatim>\<open>add\<close> resolves to module A again.\<close>

theorem removeModule_then_findSymbol_witness:
  "reachable demoEnv jitAB
   \<and> removeModule jitAB 20 = Returns jitBGone
   \<and> fst (findSymbol demoEnv jitBGone ''mul'') = None
   \<and> fst (findSymbol demoEnv jitBGone ''puts'') = Some \<lparr>getAddress = 4096, getFlags = {Exported}\<rparr>
   \<and> fst (findSymbol demoEnv jitBGone ''add'') = Some \<lparr>getAddress = 100, getFlags = {Exported}\<rparr>"
proof -
  have mul: "''_mul'' = fst (mangle demoEnv jitBGone ''mul'')"
    and puts: "''_puts'' = fst (mangle demoEnv jitBGone ''puts'')"
    and add: "''_add'' = fst (mangle demoEnv jitBGone ''add'')"
    by (simp_all add: mangle_def demoEnv_def)
  have a: "fst (findSymbol demoEnv jitBGone ''mul'') = None"
    using removeModule_then_findSymbol [OF reachable_jitAB removeModule_jitAB mul]
    by (simp add: moduleHandles_jitAB findSymbolIn_jitAB moduleA_def demoEnv_def)
  have b: "fst (findSymbol demoEnv jitBGone ''puts'') = Some \<lparr>getAddress = 4096, getFlags = {Exported}\<rparr>"
    using removeModule_then_findSymbol [OF reachable_jitAB removeModule_jitAB puts]
    by (simp add: moduleHandles_jitAB findSymbolIn_jitAB moduleA_def demoEnv_def)
  have c: "fst (findSymbol demoEnv jitBGone ''add'') = Some \<lparr>getAddress = 100, getFlags = {Exported}\<rparr>"
    using removeModule_then_findSymbol [OF reachable_jitAB removeModule_jitAB add,
        of "[]" 10 "[20]" "\<lparr>getAddress = 100, getFlags = {Exported}\<rparr>"]
    by (simp add: moduleHandles_jitAB findSymbolIn_jitAB moduleA_def)
  from a b c reachable_jitAB removeModule_jitAB show ?thesis by blast
qed

section \<open>The mangler\<close>

text \<open>
  Claim C8. \<open>mangle\<close> returns for every name: its result is a string together with the
  unchanged manager, and there is no other outcome. The string is LLVM's mangling of the
  name under the data layout of the manager, so it depends on the name and the data layout
  alone: applied again to the same name, or in any other state of a manager with the same
  data layout, it gives the identical string.
\<close>

theorem mangle_pure:
  "mangle env jit name = (getNameWithPrefix env name (dataLayout jit), jit)
   \<and> mangle env (snd (mangle env jit name)) name = mangle env jit name
   \<and> (dataLayout jit2 = dataLayout jit \<longrightarrow> fst (mangle env jit2 name) = fst (mangle env jit name))"
  by (simp add: mangle_def)

theorem mangle_pure_witness:
  "dataLayout jitAB = dataLayout jitA
   \<and> mangle demoEnv jitA ''add'' = (''_add'', jitA)
   \<and> fst (mangle demoEnv jitAB ''add'') = ''_add''"
  using mangle_pure [of demoEnv jitA "''add''" jitAB]
  by (simp add: demoEnv_def)

end
